theory Spec2Isabelle
  imports Main
begin

section \<open>The host glue of the TypeScript class organizer (src/extension.ts)\<close>

text \<open>
  The extension is the editor-side host of the organizer. It resolves a configuration,
  filters files by include and exclude globs, hands the text of a file to
  \<^verbatim>\<open>SourceCodeOrganizer.organizeSourceCode\<close> and replaces the whole document when the
  returned text differs from the text it read.

  The functions of \<^verbatim>\<open>extension.ts\<close> are embedded one by one under their own names.
  What they import (the file system helpers, the glob library, the configuration
  loader, the organizer itself and the editor API) is a field of the record \<open>host\<close>:
  the theorems hold for every value of those fields unless a hypothesis says otherwise.
  Promises are modelled by their results: a rejected promise is \<open>Inl\<close> of an
  \<open>error\<close>, a promise that never settles is \<open>None\<close>. Calls of \<^verbatim>\<open>log\<close> write to an
  output channel only and are left out. The file system does not change while a
  function runs, so \<^verbatim>\<open>fileExists\<close> and \<^verbatim>\<open>readFile\<close> are functions of the path.
  \<^verbatim>\<open>onInitialize\<close>, \<^verbatim>\<open>onOrganizeAll\<close> and \<^verbatim>\<open>activate\<close> are not embedded: no property
  below is about them.
\<close>

subsection \<open>Strings\<close>

type_synonym path = string

text \<open>
  \<^verbatim>\<open>String.prototype.replaceAll(pattern, replacement)\<close> with a string pattern: one pass
  from the left, the occurrences found do not overlap, the replacement is not scanned
  again. An empty pattern matches before every character and at the end. The
  replacement is taken as it is (the source only replaces by the empty string, which
  has none of the \<open>$\<close> patterns of JavaScript).
\<close>

function replaceAll :: "string \<Rightarrow> string \<Rightarrow> string \<Rightarrow> string" where
  "replaceAll pat rep s =
     (if pat = [] then rep @ concat (map (\<lambda>c. c # rep) s)
      else if s = [] then []
      else if take (length pat) s = pat then rep @ replaceAll pat rep (drop (length pat) s)
      else hd s # replaceAll pat rep (tl s))"
  by pat_completeness auto
termination
  by (relation "measure (\<lambda>(pat, rep, s). length s)") (auto simp: neq_Nil_conv)

declare replaceAll.simps [simp del]

subsection \<open>Errors, configuration and the imported functions\<close>

text \<open>
  \<open>ParseError\<close> and \<open>ConfigurationError\<close> are the failures the specification names for
  the organizer; \<open>IOError\<close> stands for a rejected file or editor operation and
  \<open>IllegalArgument\<close> for \<^verbatim>\<open>lineAt\<close> outside the document.
\<close>

datatype error = ParseError | ConfigurationError | IOError | IllegalArgument

text \<open>\<^verbatim>\<open>configuration.files.include\<close> and \<^verbatim>\<open>configuration.files.exclude\<close>.\<close>

record file_patterns =
  includeGlobs :: "string list"
  excludeGlobs :: "string list"

record configuration =
  cfgFiles :: file_patterns

text \<open>
  A document of the editor: \<^verbatim>\<open>uri.fsPath\<close>, \<^verbatim>\<open>languageId\<close>, \<^verbatim>\<open>getText()\<close> and
  \<^verbatim>\<open>eol\<close>, the line end the editor writes in this document.
\<close>

datatype end_of_line = EndOfLineLF | EndOfLineCRLF

record text_document =
  fsPath :: path
  languageId :: string
  getText :: string
  eol :: end_of_line

text \<open>
  The imports of \<^verbatim>\<open>extension.ts\<close>. \<open>globToRegExpTest pattern text\<close> is
  \<^verbatim>\<open>globToRegExp(pattern).test(text)\<close>; \<open>workspaceFolders\<close> holds the \<^verbatim>\<open>uri.fsPath\<close> of
  every workspace folder, \<open>None\<close> when the editor has none (\<^verbatim>\<open>undefined\<close>);
  \<open>openTextDocument\<close> is \<^verbatim>\<open>vscode.workspace.openTextDocument\<close>; \<open>toLowerCase\<close> is
  \<^verbatim>\<open>String.prototype.toLowerCase\<close> of the JavaScript runtime, which lowers every cased
  letter of Unicode.
\<close>

record 'z host =
  fileExists :: "path \<Rightarrow> bool"
  readFile :: "path \<Rightarrow> error + string"
  getDirectoryPath :: "path \<Rightarrow> path"
  getFullPath :: "path \<Rightarrow> path"
  getRelativePath :: "path \<Rightarrow> path \<Rightarrow> path"
  joinPath :: "path \<Rightarrow> path \<Rightarrow> path"
  globToRegExpTest :: "string \<Rightarrow> string \<Rightarrow> bool"
  loadConfiguration :: "path \<Rightarrow> 'z configuration_scheme"
  getDefaultConfiguration :: "'z configuration_scheme"
  organizeSourceCode :: "path \<Rightarrow> string \<Rightarrow> 'z configuration_scheme \<Rightarrow> error + string"
  workspaceFolders :: "path list option"
  openTextDocument :: "path \<Rightarrow> error + text_document"
  toLowerCase :: "string \<Rightarrow> string"

subsection \<open>Workspace root and glob matching\<close>

definition getWorkspaceRootDirectoryPath :: "'z host \<Rightarrow> path" where
  "getWorkspaceRootDirectoryPath h =
     (case workspaceFolders h of
        Some folders \<Rightarrow>
          if length folders > 0 then getFullPath h (hd folders) else getFullPath h ''./''
      | None \<Rightarrow> getFullPath h ''./'')"

definition matches :: "'z host \<Rightarrow> string \<Rightarrow> string \<Rightarrow> bool" where
  "matches h pattern txt = globToRegExpTest h pattern txt"

subsection \<open>The include and exclude filter\<close>

record file_check =
  shouldOrganize :: bool
  reason :: "string option"

text \<open>The second form of the path that every pattern is tried on.\<close>

definition stripDots :: "string \<Rightarrow> string" where
  "stripDots p = replaceAll ''./'' [] (replaceAll ''../'' [] p)"

definition shouldOrganizeFile :: "'z host \<Rightarrow> path \<Rightarrow> 'z configuration_scheme \<Rightarrow> file_check" where
  "shouldOrganizeFile h sourceCodeFilePathRelative cfg =
     (let incl =
            (if length (includeGlobs (cfgFiles cfg)) > 0
             then list_ex (\<lambda>inc. matches h inc sourceCodeFilePathRelative \<or>
                                 matches h inc (stripDots sourceCodeFilePathRelative))
                    (includeGlobs (cfgFiles cfg))
             else True);
          excl =
            (if length (excludeGlobs (cfgFiles cfg)) > 0
             then list_ex (\<lambda>exc. matches h exc sourceCodeFilePathRelative \<or>
                                 matches h exc (stripDots sourceCodeFilePathRelative))
                    (excludeGlobs (cfgFiles cfg))
             else False)
      in if \<not> incl then \<lparr>shouldOrganize = False,
                           reason = Some ''does not match file include patterns''\<rparr>
         else if excl then \<lparr>shouldOrganize = False,
                             reason = Some ''matches file exclude patterns''\<rparr>
         else \<lparr>shouldOrganize = True, reason = None\<rparr>)"

subsection \<open>Resolving the configuration\<close>

text \<open>
  The loop of \<^verbatim>\<open>getConfiguration\<close> that goes one folder up at a time, with the code
  after it: it returns the configuration of the first \<^verbatim>\<open>tsco.json\<close> it finds, and the
  default configuration once the directory is its own parent. Whether it is ever left
  depends on \<open>getDirectoryPath\<close>, so it is a partial function: \<open>None\<close> is a loop
  that runs forever.
\<close>

partial_function (option) searchParentDirectories ::
    "'z host \<Rightarrow> path \<Rightarrow> 'z configuration_scheme option" where
  "searchParentDirectories h workspaceRootDirectoryPath =
     (if workspaceRootDirectoryPath \<noteq> getDirectoryPath h workspaceRootDirectoryPath then
        (let parent = getDirectoryPath h workspaceRootDirectoryPath;
             configurationFilePath = joinPath h parent ''tsco.json''
         in if fileExists h configurationFilePath
            then Some (loadConfiguration h configurationFilePath)
            else searchParentDirectories h parent)
      else Some (getDefaultConfiguration h))"

text \<open>
  The lookup in the workspace root and above it, which \<^verbatim>\<open>getConfiguration\<close> reaches
  when the settings name no configuration file or the named file is not found.
\<close>

definition lookupFromWorkspaceRoot :: "'z host \<Rightarrow> 'z configuration_scheme option" where
  "lookupFromWorkspaceRoot h =
     (let workspaceRootDirectoryPath = getWorkspaceRootDirectoryPath h;
          configurationFilePath = joinPath h workspaceRootDirectoryPath ''tsco.json''
      in if fileExists h configurationFilePath
         then Some (loadConfiguration h configurationFilePath)
         else searchParentDirectories h workspaceRootDirectoryPath)"

text \<open>
  \<^verbatim>\<open>configurationFilePath\<close> is \<^verbatim>\<open>string | null\<close>: \<open>None\<close> is \<^verbatim>\<open>null\<close>, and
  \<^verbatim>\<open>if (configurationFilePath)\<close> holds for a string that is neither \<^verbatim>\<open>null\<close> nor empty.
\<close>

definition getConfiguration :: "'z host \<Rightarrow> path option \<Rightarrow> 'z configuration_scheme option" where
  "getConfiguration h configurationFilePath =
     (case configurationFilePath of
        None \<Rightarrow> lookupFromWorkspaceRoot h
      | Some p \<Rightarrow>
          if p = [] then lookupFromWorkspaceRoot h
          else if fileExists h p then Some (loadConfiguration h p)
          else if fileExists h (joinPath h (getWorkspaceRootDirectoryPath h) p)
          then Some (loadConfiguration h (joinPath h (getWorkspaceRootDirectoryPath h) p))
          else lookupFromWorkspaceRoot h)"

subsection \<open>Documents, positions and edits of the editor\<close>

text \<open>
  The lines of a document are the
  stretches of its text between line terminators (\<^verbatim>\<open>\n\<close>, \<^verbatim>\<open>\r\n\<close>, \<^verbatim>\<open>\r\<close>);
  \<open>splitLines\<close> gives every line with the terminator that ends it, the last line
  with none. So a document always has at least one line.
\<close>

definition LF :: char where "LF = CHR 0x0A"
definition CR :: char where "CR = CHR 0x0D"

fun splitLines :: "string \<Rightarrow> (string \<times> string) list" where
  "splitLines [] = [([], [])]"
| "splitLines [c] =
     (if c = LF \<or> c = CR then [([], [c]), ([], [])] else [([c], [])])"
| "splitLines (c # d # cs) =
     (if c = CR \<and> d = LF then ([], [c, d]) # splitLines cs
      else if c = LF \<or> c = CR then ([], [c]) # splitLines (d # cs)
      else (case splitLines (d # cs) of
              (l, e) # rest \<Rightarrow> (c # l, e) # rest
            | [] \<Rightarrow> [([c], [])]))"

definition lineCount :: "text_document \<Rightarrow> nat" where
  "lineCount d = length (splitLines (getText d))"

text \<open>\<^verbatim>\<open>document.lineAt(i).text\<close>; the editor throws when there is no line \<open>i\<close>.\<close>

definition lineAt :: "text_document \<Rightarrow> nat \<Rightarrow> error + string" where
  "lineAt d i =
     (if i < lineCount d then Inr (fst (splitLines (getText d) ! i)) else Inl IllegalArgument)"

record position =
  line :: nat
  character :: nat

record range =
  rangeStart :: position
  rangeEnd :: position

text \<open>\<^verbatim>\<open>TextEdit.replace(range, newText)\<close>.\<close>

datatype text_edit = Replace range string

text \<open>
  The offset of a position in a text: the lines before it with their terminators, and
  the characters before it in its own line. A position past the end of its line is the
  end of that line; a position past the last line is the end of the text.
\<close>

definition offsetAt :: "string \<Rightarrow> position \<Rightarrow> nat" where
  "offsetAt txt p =
     (let ls = splitLines txt in
      if line p < length ls
      then sum_list (map (\<lambda>(l, e). length l + length e) (take (line p) ls))
             + min (character p) (length (fst (ls ! line p)))
      else length txt)"

definition replaceRange :: "string \<Rightarrow> range \<Rightarrow> string \<Rightarrow> string" where
  "replaceRange txt r newText =
     take (offsetAt txt (rangeStart r)) txt @ newText @ drop (offsetAt txt (rangeEnd r)) txt"

text \<open>
  What the functions below read and change: the documents of the visible editors, and
  the workspace edits applied so far (each one replacement in the document of a path).
  \<open>organizerCalls\<close> is a trace that is not in the source: it records every call of
  \<^verbatim>\<open>SourceCodeOrganizer.organizeSourceCode\<close> with its file path and its text, so that
  "the organizer is not called" can be stated.
\<close>

record state =
  visibleTextEditors :: "text_document list"
  appliedEdits :: "(path \<times> range \<times> string) list"
  organizerCalls :: "(path \<times> string) list"

definition getOpenedEditor :: "'z host \<Rightarrow> state \<Rightarrow> path \<Rightarrow> text_document option" where
  "getOpenedEditor h st filePath =
     find (\<lambda>e. toLowerCase h (getFullPath h (fsPath e)) = toLowerCase h (getFullPath h filePath))
       (visibleTextEditors st)"

text \<open>
  \<^verbatim>\<open>openEditor\<close>: an editor that shows the file already is reused; otherwise the
  document is opened (which may fail) and \<^verbatim>\<open>vscode.window.showTextDocument\<close> adds it to
  the visible editors.
\<close>

definition openEditor :: "'z host \<Rightarrow> state \<Rightarrow> path \<Rightarrow> (error + text_document) \<times> state" where
  "openEditor h st filePath =
     (case getOpenedEditor h st filePath of
        Some editor \<Rightarrow> (Inr editor, st)
      | None \<Rightarrow>
          (case openTextDocument h filePath of
             Inl err \<Rightarrow> (Inl err, st)
           | Inr document \<Rightarrow>
               (Inr document, st\<lparr>visibleTextEditors := visibleTextEditors st @ [document]\<rparr>)))"

text \<open>
  The text the editor inserts for a new text: every line end of the new text is
  written as the line end of the document.
\<close>

definition eolText :: "end_of_line \<Rightarrow> string" where
  "eolText e = (case e of EndOfLineLF \<Rightarrow> [LF] | EndOfLineCRLF \<Rightarrow> [CR, LF])"

definition normalizeLineEnds :: "end_of_line \<Rightarrow> string \<Rightarrow> string" where
  "normalizeLineEnds e newText =
     concat (map (\<lambda>(l, t). l @ (if t = [] then [] else eolText e)) (splitLines newText))"

text \<open>
  \<^verbatim>\<open>vscode.workspace.applyEdit\<close> of an edit with one replacement: the text of the
  document with that path is replaced in the range, by the new text with the line ends
  of the document. The editor reports whether it applied the edit; \<^verbatim>\<open>organize\<close> does
  not look at the answer, and here the edit is always applied.
\<close>

definition applyEdit :: "state \<Rightarrow> path \<times> range \<times> string \<Rightarrow> state" where
  "applyEdit st edit =
     (case edit of (uri, r, newText) \<Rightarrow>
        st\<lparr>visibleTextEditors :=
             map (\<lambda>d. if fsPath d = uri
                      then d\<lparr>getText :=
                             replaceRange (getText d) r (normalizeLineEnds (eol d) newText)\<rparr>
                      else d)
               (visibleTextEditors st),
           appliedEdits := appliedEdits st @ [edit]\<rparr>)"

subsection \<open>Organizing a file\<close>

text \<open>
  The range both \<^verbatim>\<open>organize\<close> and \<^verbatim>\<open>onSave\<close> build: from \<^verbatim>\<open>Position(0, 0)\<close> to
  \<^verbatim>\<open>Position(lineCount - 1, lineAt(lineCount - 1).text.length)\<close>.
\<close>

definition rangeToLastLine :: "text_document \<Rightarrow> error + range" where
  "rangeToLastLine d =
     (case lineAt d (lineCount d - 1) of
        Inl err \<Rightarrow> Inl err
      | Inr lastLine \<Rightarrow>
          Inr \<lparr>rangeStart = \<lparr>line = 0, character = 0\<rparr>,
               rangeEnd = \<lparr>line = lineCount d - 1, character = length lastLine\<rparr>\<rparr>)"

text \<open>
  \<^verbatim>\<open>organize\<close> returns whether it changed the document, or the error of the first
  operation that failed, together with the state it leaves.
\<close>

definition organize ::
    "'z host \<Rightarrow> state \<Rightarrow> path \<Rightarrow> 'z configuration_scheme \<Rightarrow> (error + bool) \<times> state" where
  "organize h st sourceCodeFilePath cfg =
     (let workspaceRootDirectoryPath = getWorkspaceRootDirectoryPath h;
          sourceCodeDirectoryPath = workspaceRootDirectoryPath;
          sourceCodeFilePathRelative =
            getRelativePath h sourceCodeDirectoryPath sourceCodeFilePath;
          fileCheck = shouldOrganizeFile h sourceCodeFilePathRelative cfg
      in if \<not> shouldOrganize fileCheck then (Inr False, st)
         else
           let editor = getOpenedEditor h st sourceCodeFilePath in
           case (case editor of
                   Some e \<Rightarrow> Inr (getText e)
                 | None \<Rightarrow> readFile h sourceCodeFilePath) of
             Inl err \<Rightarrow> (Inl err, st)
           | Inr sourceCode \<Rightarrow>
               let st1 = st\<lparr>organizerCalls :=
                              organizerCalls st @ [(sourceCodeFilePath, sourceCode)]\<rparr>
               in case organizeSourceCode h sourceCodeFilePath sourceCode cfg of
                    Inl err \<Rightarrow> (Inl err, st1)
                  | Inr organizedSourceCode \<Rightarrow>
                      if organizedSourceCode \<noteq> sourceCode then
                        (case (case editor of
                                 Some e \<Rightarrow> (Inr e, st1)
                               | None \<Rightarrow> openEditor h st1 sourceCodeFilePath) of
                           (Inl err, st2) \<Rightarrow> (Inl err, st2)
                         | (Inr ed, st2) \<Rightarrow>
                             (case rangeToLastLine ed of
                                Inl err \<Rightarrow> (Inl err, st2)
                              | Inr r \<Rightarrow>
                                  (Inr True, applyEdit st2 (fsPath ed, r, organizedSourceCode))))
                      else (Inr False, st1))"

subsection \<open>The commands\<close>

text \<open>The settings the extension reads: \<^verbatim>\<open>organizeOnSave\<close> and \<^verbatim>\<open>configurationFilePath\<close>.\<close>

record settings =
  organizeOnSave :: bool
  configurationFilePath :: "path option"

text \<open>
  \<^verbatim>\<open>onOrganize\<close> takes \<^verbatim>\<open>string | undefined | null\<close>: \<open>None\<close> is \<^verbatim>\<open>undefined\<close> or
  \<^verbatim>\<open>null\<close>. The result is \<open>None\<close> when resolving the configuration never returns.
\<close>

definition onOrganize ::
    "'z host \<Rightarrow> settings \<Rightarrow> state \<Rightarrow> path option \<Rightarrow> ((error + bool) \<times> state) option" where
  "onOrganize h stg st sourceCodeFilePath =
     (case sourceCodeFilePath of
        None \<Rightarrow> Some (Inr False, st)
      | Some p \<Rightarrow>
          if p = [] then Some (Inr False, st)
          else
            let full = getFullPath h p in
            if matches h ''**/*.ts'' full \<and> fileExists h full then
              (case getConfiguration h (configurationFilePath stg) of
                 None \<Rightarrow> None
               | Some cfg \<Rightarrow> Some (organize h st full cfg))
            else Some (Inr False, st))"

text \<open>
  \<^verbatim>\<open>onSave\<close> either leaves the event alone or hands \<^verbatim>\<open>event.waitUntil\<close> a promise of
  the edits to make before the document is saved. The promise resolves to a list of
  edits (\<open>Some (Inr edits)\<close>), is rejected (\<open>Some (Inl err)\<close>) or never settles
  (\<open>None\<close>).
\<close>

record text_document_will_save_event =
  document :: text_document

datatype save_registration =
    NotRegistered
  | WaitUntil "(error + text_edit list) option"

definition onSave ::
    "'z host \<Rightarrow> settings \<Rightarrow> state \<Rightarrow> text_document_will_save_event \<Rightarrow> save_registration \<times> state" where
  "onSave h stg st event =
     (if organizeOnSave stg \<and> languageId (document event) = ''typescript'' then
        (let sourceCodeFilePath = getFullPath h (fsPath (document event)) in
         if matches h ''**/*.ts'' sourceCodeFilePath then
           (case getConfiguration h (configurationFilePath stg) of
              None \<Rightarrow> (WaitUntil None, st)
            | Some cfg \<Rightarrow>
                let workspaceRootDirectoryPath = getWorkspaceRootDirectoryPath h;
                    sourceCodeDirectoryPath = workspaceRootDirectoryPath;
                    sourceCodeFilePathRelative =
                      getRelativePath h sourceCodeDirectoryPath sourceCodeFilePath;
                    fileCheck = shouldOrganizeFile h sourceCodeFilePathRelative cfg
                in if \<not> shouldOrganize fileCheck then (WaitUntil (Some (Inr [])), st)
                   else
                     let sourceCode = getText (document event);
                         st1 = st\<lparr>organizerCalls :=
                                    organizerCalls st @ [(sourceCodeFilePath, sourceCode)]\<rparr>
                     in case organizeSourceCode h sourceCodeFilePath sourceCode cfg of
                          Inl err \<Rightarrow> (WaitUntil (Some (Inl err)), st1)
                        | Inr organizedSourceCode \<Rightarrow>
                            if organizedSourceCode \<noteq> sourceCode then
                              (case rangeToLastLine (document event) of
                                 Inl err \<Rightarrow> (WaitUntil (Some (Inl err)), st1)
                               | Inr r \<Rightarrow>
                                   (WaitUntil (Some (Inr [Replace r organizedSourceCode])), st1))
                            else (WaitUntil (Some (Inr [])), st1))
         else (NotRegistered, st))
      else (NotRegistered, st))"

section \<open>Specification-side definitions\<close>

text \<open>
  The definitions of this section are not in the source. They say, in the words of the
  claims, what the functions above are compared with.
\<close>

subsection \<open>The include and exclude filter\<close>

text \<open>A pattern matches a relative path when it matches one of the two forms of the path.\<close>

definition patternMatches :: "'z host \<Rightarrow> path \<Rightarrow> string \<Rightarrow> bool" where
  "patternMatches h rel pattern = (matches h pattern rel \<or> matches h pattern (stripDots rel))"

definition passesFilter :: "'z host \<Rightarrow> path \<Rightarrow> 'z configuration_scheme \<Rightarrow> bool" where
  "passesFilter h rel cfg =
     ((includeGlobs (cfgFiles cfg) = [] \<or> list_ex (patternMatches h rel) (includeGlobs (cfgFiles cfg)))
      \<and> \<not> list_ex (patternMatches h rel) (excludeGlobs (cfgFiles cfg)))"

text \<open>The path relative to the workspace root, which \<^verbatim>\<open>organize\<close> and \<^verbatim>\<open>onSave\<close> filter.\<close>

definition relativeToWorkspace :: "'z host \<Rightarrow> path \<Rightarrow> path" where
  "relativeToWorkspace h p = getRelativePath h (getWorkspaceRootDirectoryPath h) p"

subsection \<open>The order of the configuration files\<close>

text \<open>
  The directories above a directory, nearest first, up to the first one that is its
  own parent: at most \<open>n\<close> of them.
\<close>

fun parentDirectories :: "'z host \<Rightarrow> nat \<Rightarrow> path \<Rightarrow> path list" where
  "parentDirectories h 0 d = []"
| "parentDirectories h (Suc n) d =
     (if d \<noteq> getDirectoryPath h d
      then getDirectoryPath h d # parentDirectories h n (getDirectoryPath h d)
      else [])"

text \<open>
  The files a configuration is looked for in, in the order of their precedence: the
  configured path as it is and under the workspace root, \<^verbatim>\<open>tsco.json\<close> in the workspace
  root, \<^verbatim>\<open>tsco.json\<close> in the directories above it.
\<close>

definition configurationCandidates :: "'z host \<Rightarrow> nat \<Rightarrow> path option \<Rightarrow> path list" where
  "configurationCandidates h n configured =
     (case configured of
        Some p \<Rightarrow> if p \<noteq> [] then [p, joinPath h (getWorkspaceRootDirectoryPath h) p] else []
      | None \<Rightarrow> [])
     @ [joinPath h (getWorkspaceRootDirectoryPath h) ''tsco.json'']
     @ map (\<lambda>d. joinPath h d ''tsco.json'')
         (parentDirectories h n (getWorkspaceRootDirectoryPath h))"

text \<open>The configuration of the first candidate that exists, the default one if none does.\<close>

definition firstExisting :: "'z host \<Rightarrow> path list \<Rightarrow> 'z configuration_scheme" where
  "firstExisting h candidates =
     (case find (fileExists h) candidates of
        Some f \<Rightarrow> loadConfiguration h f
      | None \<Rightarrow> getDefaultConfiguration h)"

subsection \<open>Reading and editing a document\<close>

text \<open>The text \<^verbatim>\<open>organize\<close> reads: that of the opened editor, else that of the file.\<close>

definition currentSourceCode :: "'z host \<Rightarrow> state \<Rightarrow> path \<Rightarrow> error + string" where
  "currentSourceCode h st p =
     (case getOpenedEditor h st p of
        Some e \<Rightarrow> Inr (getText e)
      | None \<Rightarrow> readFile h p)"

text \<open>
  The editor \<^verbatim>\<open>organize\<close> edits: the opened one, else the one \<^verbatim>\<open>openEditor\<close> opens.
\<close>

definition editorToEdit :: "'z host \<Rightarrow> state \<Rightarrow> path \<Rightarrow> (error + text_document) \<times> state" where
  "editorToEdit h st p =
     (case getOpenedEditor h st p of
        Some e \<Rightarrow> (Inr e, st)
      | None \<Rightarrow> openEditor h st p)"

text \<open>The state in which a call of the organizer has been recorded.\<close>

definition recordCall :: "state \<Rightarrow> path \<Rightarrow> string \<Rightarrow> state" where
  "recordCall st p src = st\<lparr>organizerCalls := organizerCalls st @ [(p, src)]\<rparr>"

text \<open>The range from the first character of a document to the end of its last line.\<close>

definition wholeDocumentRange :: "text_document \<Rightarrow> range" where
  "wholeDocumentRange d =
     \<lparr>rangeStart = \<lparr>line = 0, character = 0\<rparr>,
      rangeEnd = \<lparr>line = lineCount d - 1,
                  character = length (fst (last (splitLines (getText d))))\<rparr>\<rparr>"

text \<open>The three guards of \<^verbatim>\<open>onSave\<close>.\<close>

definition saveGuards :: "'z host \<Rightarrow> settings \<Rightarrow> text_document_will_save_event \<Rightarrow> bool" where
  "saveGuards h stg event =
     (organizeOnSave stg \<and> languageId (document event) = ''typescript''
      \<and> matches h ''**/*.ts'' (getFullPath h (fsPath (document event))))"

section \<open>A host to evaluate on\<close>

text \<open>
  A small host on which the theorems are instantiated: paths are slash-separated, a
  glob is a text in which \<open>*\<close> stands for any run of characters, and the organizer is a
  table of three cases (a text it rejects, a text it reorders, and texts it keeps).
\<close>

fun globMatch :: "string \<Rightarrow> string \<Rightarrow> bool" where
  "globMatch [] t = (t = [])"
| "globMatch (p # ps) t =
     (if p = CHR ''*''
      then globMatch ps t \<or> (case t of [] \<Rightarrow> False | c # cs \<Rightarrow> globMatch (p # ps) cs)
      else (case t of [] \<Rightarrow> False | c # cs \<Rightarrow> c = p \<and> globMatch ps cs))"

text \<open>
  The parent of a path: the path without its last component and the slashes before it;
  \<open>/\<close> is its own parent, and so is \<open>.\<close>, the parent of a path without a slash.
\<close>

definition parentDirectory :: "path \<Rightarrow> path" where
  "parentDirectory p =
     (let q = dropWhile (\<lambda>c. c \<noteq> CHR ''/'') (rev p);
          r = dropWhile (\<lambda>c. c = CHR ''/'') q
      in if q = [] then ''.'' else if r = [] then ''/'' else rev r)"

definition pathMeasure :: "path \<Rightarrow> nat" where
  "pathMeasure p = (if p = ''.'' then 0 else Suc (length p))"

definition joinWithSlash :: "path \<Rightarrow> path \<Rightarrow> path" where
  "joinWithSlash a b = (if a \<noteq> [] \<and> last a = CHR ''/'' then a @ b else a @ ''/'' @ b)"

definition relativePath :: "path \<Rightarrow> path \<Rightarrow> path" where
  "relativePath a b =
     (if take (Suc (length a)) b = a @ ''/'' then drop (Suc (length a)) b else b)"

definition demoConfiguration :: configuration where
  "demoConfiguration =
     \<lparr>cfgFiles = \<lparr>includeGlobs = [''src/*''], excludeGlobs = [''*.d.ts'']\<rparr>\<rparr>"

definition demoBoth :: configuration where
  "demoBoth = \<lparr>cfgFiles = \<lparr>includeGlobs = [''src/*''], excludeGlobs = [''*/gen/*'']\<rparr>\<rparr>"

definition demoOrganizer :: "path \<Rightarrow> string \<Rightarrow> configuration \<Rightarrow> error + string" where
  "demoOrganizer p src cfg =
     (if src = ''class {'' then Inl ParseError
      else if src = ''b();a();'' then Inr ''a();b();''
      else Inr src)"

definition demoFiles :: "path \<Rightarrow> string option" where
  "demoFiles =
     [''/w/src/b.ts'' \<mapsto> ''b();a();'',
      ''/w/src/a.ts'' \<mapsto> ''a();b();'',
      ''/w/src/c.ts'' \<mapsto> ''class {'',
      ''/tsco.json'' \<mapsto> ''{}'']"

text \<open>The lowering of the letters A to Z, the case mapping of this host.\<close>

definition asciiLowerCase :: "string \<Rightarrow> string" where
  "asciiLowerCase s =
     map (\<lambda>c. case map_of (zip ''ABCDEFGHIJKLMNOPQRSTUVWXYZ'' ''abcdefghijklmnopqrstuvwxyz'') c of
                Some l \<Rightarrow> l
              | None \<Rightarrow> c) s"

definition demoDocument :: "path \<Rightarrow> string \<Rightarrow> text_document" where
  "demoDocument p t =
     \<lparr>fsPath = p, languageId = ''typescript'', getText = t, eol = EndOfLineLF\<rparr>"

definition demoHost :: "unit host" where
  "demoHost =
     \<lparr>fileExists = (\<lambda>p. demoFiles p \<noteq> None),
      readFile = (\<lambda>p. case demoFiles p of Some t \<Rightarrow> Inr t | None \<Rightarrow> Inl IOError),
      getDirectoryPath = parentDirectory,
      getFullPath = (\<lambda>p. p),
      getRelativePath = relativePath,
      joinPath = joinWithSlash,
      globToRegExpTest = globMatch,
      loadConfiguration = (\<lambda>p. demoConfiguration),
      getDefaultConfiguration = \<lparr>cfgFiles = \<lparr>includeGlobs = [], excludeGlobs = []\<rparr>\<rparr>,
      organizeSourceCode = demoOrganizer,
      workspaceFolders = Some [''/w''],
      openTextDocument =
        (\<lambda>p. case demoFiles p of
               Some t \<Rightarrow> Inr (demoDocument p t)
             | None \<Rightarrow> Inl IOError),
      toLowerCase = asciiLowerCase\<rparr>"

definition demoSettings :: settings where
  "demoSettings = \<lparr>organizeOnSave = True, configurationFilePath = None\<rparr>"

definition demoState :: state where
  "demoState = \<lparr>visibleTextEditors = [], appliedEdits = [], organizerCalls = []\<rparr>"

section \<open>Lemmas\<close>

declare searchParentDirectories.simps [code]

subsection \<open>Lines, offsets and the range of a whole document\<close>

lemma splitLines_nonempty: "splitLines t \<noteq> []"
proof (cases t rule: splitLines.cases)
  case (3 c d cs)
  then show ?thesis by (cases "splitLines (d # cs)") auto
qed auto

lemma splitLines_concat: "concat (map (\<lambda>(l, e). l @ e) (splitLines t)) = t"
  by (induction t rule: splitLines.induct)
     (auto split: list.splits prod.splits simp: splitLines_nonempty)

lemma splitLines_last: "snd (last (splitLines t)) = []"
  by (induction t rule: splitLines.induct)
     (auto split: list.splits prod.splits simp: splitLines_nonempty)

lemma sum_lengths:
  "sum_list (map (\<lambda>(l, e). length l + length e) ls) = length (concat (map (\<lambda>(l, e). l @ e) ls))"
  by (induction ls) auto

lemma offsetAt_origin: "offsetAt t \<lparr>line = 0, character = 0\<rparr> = 0"
  by (simp add: offsetAt_def Let_def splitLines_nonempty)

lemma offsetAt_end:
  "offsetAt t \<lparr>line = length (splitLines t) - Suc 0,
               character = length (fst (last (splitLines t)))\<rparr> = length t"
proof -
  let ?ls = "splitLines t"
  have ne: "?ls \<noteq> []" by (rule splitLines_nonempty)
  then have dec: "?ls = butlast ?ls @ [last ?ls]" by simp
  have lst: "last ?ls = (fst (last ?ls), [])"
    using splitLines_last [of t] by (cases "last ?ls") simp
  have "length t = length (concat (map (\<lambda>(l, e). l @ e) ?ls))"
    by (simp add: splitLines_concat)
  also have "\<dots> = length (concat (map (\<lambda>(l, e). l @ e) (butlast ?ls @ [last ?ls])))"
    using dec by simp
  also have "\<dots> = sum_list (map (\<lambda>(l, e). length l + length e) (butlast ?ls))
                    + length (fst (last ?ls))"
    by (subst lst) (simp add: sum_lengths)
  finally have len: "length t = sum_list (map (\<lambda>(l, e). length l + length e) (butlast ?ls))
                    + length (fst (last ?ls))" .
  have nth: "?ls ! (length ?ls - Suc 0) = last ?ls"
    using ne by (simp add: last_conv_nth)
  have tk: "take (length ?ls - Suc 0) ?ls = butlast ?ls"
    by (simp add: butlast_conv_take)
  show ?thesis
    using ne len by (simp add: offsetAt_def Let_def nth tk)
qed

lemma rangeToLastLine_eq: "rangeToLastLine d = Inr (wholeDocumentRange d)"
  using splitLines_nonempty [of "getText d"]
  by (simp add: rangeToLastLine_def wholeDocumentRange_def lineAt_def lineCount_def last_conv_nth)

lemma whole_offsets:
  "offsetAt (getText d) (rangeStart (wholeDocumentRange d)) = 0"
  "offsetAt (getText d) (rangeEnd (wholeDocumentRange d)) = length (getText d)"
  by (simp_all add: wholeDocumentRange_def offsetAt_origin offsetAt_end lineCount_def)

lemma replaceRange_whole: "replaceRange (getText d) (wholeDocumentRange d) newText = newText"
  by (simp add: replaceRange_def whole_offsets)

subsection \<open>The filter\<close>

lemma patternMatches_fun:
  "patternMatches h rel = (\<lambda>pat. matches h pat rel \<or> matches h pat (stripDots rel))"
  by (rule ext) (simp add: patternMatches_def)

lemma shouldOrganize_iff: "shouldOrganize (shouldOrganizeFile h rel cfg) = passesFilter h rel cfg"
  by (auto simp: shouldOrganizeFile_def passesFilter_def patternMatches_fun Let_def)

subsection \<open>What \<^verbatim>\<open>organize\<close> and \<^verbatim>\<open>onSave\<close> compute\<close>

lemma organize_filtered:
  "\<not> passesFilter h (relativeToWorkspace h p) cfg \<Longrightarrow> organize h st p cfg = (Inr False, st)"
  by (simp add: organize_def Let_def shouldOrganize_iff relativeToWorkspace_def)

lemma organize_unreadable:
  "passesFilter h (relativeToWorkspace h p) cfg \<Longrightarrow> currentSourceCode h st p = Inl err \<Longrightarrow>
     organize h st p cfg = (Inl err, st)"
  by (simp add: organize_def Let_def shouldOrganize_iff relativeToWorkspace_def
      currentSourceCode_def)

lemma getOpenedEditor_recordCall:
  "getOpenedEditor h (recordCall st p src) q = getOpenedEditor h st q"
  by (simp add: getOpenedEditor_def recordCall_def)

lemma organize_passed:
  assumes "passesFilter h (relativeToWorkspace h p) cfg" "currentSourceCode h st p = Inr src"
  shows "organize h st p cfg =
     (case organizeSourceCode h p src cfg of
        Inl err \<Rightarrow> (Inl err, recordCall st p src)
      | Inr out \<Rightarrow>
          if out \<noteq> src then
            (case editorToEdit h (recordCall st p src) p of
               (Inl err, st') \<Rightarrow> (Inl err, st')
             | (Inr ed, st') \<Rightarrow> (Inr True, applyEdit st' (fsPath ed, wholeDocumentRange ed, out)))
          else (Inr False, recordCall st p src))"
  using assms
  by (auto simp: organize_def Let_def shouldOrganize_iff relativeToWorkspace_def
      currentSourceCode_def recordCall_def editorToEdit_def rangeToLastLine_eq getOpenedEditor_def
      split: option.splits sum.splits prod.splits)


lemma openEditor_edits: "appliedEdits (snd (openEditor h st p)) = appliedEdits st"
  by (simp add: openEditor_def split: option.splits sum.splits)

lemma editorToEdit_edits: "appliedEdits (snd (editorToEdit h st p)) = appliedEdits st"
  by (simp add: editorToEdit_def openEditor_edits split: option.splits)


lemma applyEdit_edits: "appliedEdits (applyEdit st e) = appliedEdits st @ [e]"
  by (cases e) (simp add: applyEdit_def)

lemma recordCall_fields:
  "appliedEdits (recordCall st p src) = appliedEdits st"
  "visibleTextEditors (recordCall st p src) = visibleTextEditors st"
  "organizerCalls (recordCall st p src) = organizerCalls st @ [(p, src)]"
  by (simp_all add: recordCall_def)


lemma organize_edits_cases:
  assumes ne: "appliedEdits (snd (organize h st p cfg)) \<noteq> appliedEdits st"
  shows "\<exists>src out. currentSourceCode h st p = Inr src \<and>
           organizeSourceCode h p src cfg = Inr out \<and> out \<noteq> src"
proof (cases "passesFilter h (relativeToWorkspace h p) cfg")
  case False
  with ne show ?thesis by (simp add: organize_filtered)
next
  case True
  show ?thesis
  proof (cases "currentSourceCode h st p")
    case (Inl err)
    with ne True show ?thesis by (simp add: organize_unreadable)
  next
    case (Inr src)
    show ?thesis
    proof (cases "organizeSourceCode h p src cfg")
      case (Inl err)
      with ne True Inr show ?thesis by (simp add: organize_passed recordCall_fields)
    next
      case out: (Inr out)
      with ne True Inr show ?thesis
        by (cases "out = src") (simp_all add: organize_passed recordCall_fields)
    qed
  qed
qed

lemma onSave_registered:
  assumes "saveGuards h stg event" "getConfiguration h (configurationFilePath stg) = Some cfg"
  shows "onSave h stg st event =
     (if \<not> passesFilter h (relativeToWorkspace h (getFullPath h (fsPath (document event)))) cfg
      then (WaitUntil (Some (Inr [])), st)
      else
        (case organizeSourceCode h (getFullPath h (fsPath (document event)))
                (getText (document event)) cfg of
           Inl err \<Rightarrow>
             (WaitUntil (Some (Inl err)),
              recordCall st (getFullPath h (fsPath (document event))) (getText (document event)))
         | Inr out \<Rightarrow>
             (WaitUntil (Some (Inr (if out \<noteq> getText (document event)
                                    then [Replace (wholeDocumentRange (document event)) out]
                                    else []))),
              recordCall st (getFullPath h (fsPath (document event))) (getText (document event)))))"
  using assms
  by (auto simp: onSave_def saveGuards_def Let_def shouldOrganize_iff relativeToWorkspace_def
      recordCall_def rangeToLastLine_eq split: sum.splits)

subsection \<open>The walk through the parent directories\<close>

text \<open>
  When every step to a parent that is not the directory itself makes a measure \<open>m\<close>
  smaller, the loop is the search for the first \<^verbatim>\<open>tsco.json\<close> in the list of the
  parents, and it returns.
\<close>

lemma search_eq:
  assumes shrink: "\<And>p. getDirectoryPath h p \<noteq> p \<Longrightarrow> m (getDirectoryPath h p) < m p"
  shows "m d \<le> n \<Longrightarrow>
     searchParentDirectories h d =
       Some (firstExisting h (map (\<lambda>a. joinPath h a ''tsco.json'') (parentDirectories h n d)))"
proof (induction n arbitrary: d)
  case 0
  then have "getDirectoryPath h d = d" using shrink [of d] by auto
  then show ?case
    by (subst searchParentDirectories.simps) (simp add: firstExisting_def)
next
  case (Suc n)
  show ?case
  proof (cases "getDirectoryPath h d = d")
    case True
    then show ?thesis
      by (subst searchParentDirectories.simps) (simp add: firstExisting_def)
  next
    case False
    then have "m (getDirectoryPath h d) \<le> n" using shrink [of d] Suc.prems by simp
    then have ih: "searchParentDirectories h (getDirectoryPath h d) =
       Some (firstExisting h (map (\<lambda>a. joinPath h a ''tsco.json'')
          (parentDirectories h n (getDirectoryPath h d))))"
      by (rule Suc.IH)
    from False have ne: "d \<noteq> getDirectoryPath h d" by auto
    show ?thesis
      by (subst searchParentDirectories.simps) (simp add: ne ih firstExisting_def Let_def)
  qed
qed

lemma parentDirectories_length:
  assumes shrink: "\<And>p. getDirectoryPath h p \<noteq> p \<Longrightarrow> m (getDirectoryPath h p) < m p"
  shows "length (parentDirectories h n d) \<le> m d"
proof (induction n arbitrary: d)
  case 0
  show ?case by simp
next
  case (Suc n)
  show ?case
  proof (cases "getDirectoryPath h d = d")
    case True
    then show ?thesis by simp
  next
    case False
    then have "m (getDirectoryPath h d) < m d" by (rule shrink)
    moreover have "length (parentDirectories h n (getDirectoryPath h d)) \<le> m (getDirectoryPath h d)"
      by (rule Suc.IH)
    ultimately show ?thesis using False by (simp add: neq_commute)
  qed
qed

lemma getConfiguration_eq:
  assumes shrink: "\<And>p. getDirectoryPath h p \<noteq> p \<Longrightarrow> m (getDirectoryPath h p) < m p"
  shows "getConfiguration h configured =
     Some (firstExisting h
       (configurationCandidates h (m (getWorkspaceRootDirectoryPath h)) configured))"
  using search_eq [of h m "getWorkspaceRootDirectoryPath h" "m (getWorkspaceRootDirectoryPath h)",
      OF shrink]
  by (auto simp: getConfiguration_def lookupFromWorkspaceRoot_def configurationCandidates_def
      firstExisting_def Let_def split: option.splits)

text \<open>
  Without such a measure the loop need not return: between two directories that are
  each other's parent, and without a \<^verbatim>\<open>tsco.json\<close>, it runs forever.
\<close>

lemma search_diverges:
  assumes ab: "getDirectoryPath h a = b" and ba: "getDirectoryPath h b = a" and ne: "a \<noteq> b"
    and na: "\<not> fileExists h (joinPath h a ''tsco.json'')"
    and nb: "\<not> fileExists h (joinPath h b ''tsco.json'')"
  shows "searchParentDirectories h a = None"
proof -
  have never: "\<not> (h' = h \<and> (d = a \<or> d = b))"
    if "searchParentDirectories h' d = Some y" for h' d y
    using that
  proof (rule searchParentDirectories.raw_induct
      [where P = "\<lambda>h' d y. \<not> (h' = h \<and> (d = a \<or> d = b))", rotated])
    fix f :: "'a host \<Rightarrow> path \<Rightarrow> 'a configuration_scheme option" and g e z
    assume ih: "\<And>k c w. f k c = Some w \<Longrightarrow> \<not> (k = h \<and> (c = a \<or> c = b))"
      and body: "(if e \<noteq> getDirectoryPath g e then
        (let parent = getDirectoryPath g e;
             configurationFilePath = joinPath g parent ''tsco.json''
         in if fileExists g configurationFilePath
            then Some (loadConfiguration g configurationFilePath)
            else f g parent)
      else Some (getDefaultConfiguration g)) = Some z"
    show "\<not> (g = h \<and> (e = a \<or> e = b))"
    proof
      assume c: "g = h \<and> (e = a \<or> e = b)"
      then consider "g = h" "e = a" | "g = h" "e = b" by auto
      then show False
      proof cases
        case 1
        with body ab ne nb have "f h b = Some z" by (simp add: Let_def)
        with ih show False by blast
      next
        case 2
        with body ba ne na have "f h a = Some z" by (auto simp: Let_def)
        with ih show False by blast
      qed
    qed
  qed
  show ?thesis
  proof (cases "searchParentDirectories h a")
    case (Some y)
    with never [of h a y] show ?thesis by simp
  qed simp
qed

subsection \<open>The host to evaluate on\<close>

lemma parentDirectory_dot:
  assumes "dropWhile (\<lambda>c. c \<noteq> CHR ''/'') (rev p) = []"
  shows "parentDirectory p = ''.''"
  unfolding parentDirectory_def Let_def using assms by (simp only: if_False if_True simp_thms)

lemma parentDirectory_root:
  assumes "dropWhile (\<lambda>c. c \<noteq> CHR ''/'') (rev p) \<noteq> []"
    and "dropWhile (\<lambda>c. c = CHR ''/'') (dropWhile (\<lambda>c. c \<noteq> CHR ''/'') (rev p)) = []"
  shows "parentDirectory p = ''/''"
  unfolding parentDirectory_def Let_def using assms by (simp only: if_False if_True simp_thms)

lemma parentDirectory_rev:
  assumes "dropWhile (\<lambda>c. c \<noteq> CHR ''/'') (rev p) \<noteq> []"
    and "dropWhile (\<lambda>c. c = CHR ''/'') (dropWhile (\<lambda>c. c \<noteq> CHR ''/'') (rev p)) \<noteq> []"
  shows "parentDirectory p =
    rev (dropWhile (\<lambda>c. c = CHR ''/'') (dropWhile (\<lambda>c. c \<noteq> CHR ''/'') (rev p)))"
  unfolding parentDirectory_def Let_def using assms by (simp only: if_False if_True simp_thms)

lemma parentDirectory_shrinks:
  assumes ne: "parentDirectory p \<noteq> p"
  shows "pathMeasure (parentDirectory p) < pathMeasure p"
proof -
  let ?q = "dropWhile (\<lambda>c. c \<noteq> CHR ''/'') (rev p)"
  let ?r = "dropWhile (\<lambda>c. c = CHR ''/'') ?q"
  show ?thesis
  proof (cases "?q = []")
    case True
    then have "parentDirectory p = ''.''" by (rule parentDirectory_dot)
    with ne show ?thesis by (simp add: pathMeasure_def)
  next
    case False
    then have slash: "CHR ''/'' \<in> set p" by (auto simp: dropWhile_eq_Nil_conv)
    then have notdot: "p \<noteq> ''.''" by auto
    have hdq: "hd ?q = CHR ''/''"
      using False hd_dropWhile [of "\<lambda>c. c \<noteq> CHR ''/''" "rev p"] by simp
    have lq: "length ?q \<le> length p"
      using length_dropWhile_le [of "\<lambda>c. c \<noteq> CHR ''/''" "rev p"] by simp
    have "?r = dropWhile (\<lambda>c. c = CHR ''/'') (tl ?q)"
      using False hdq by (cases ?q) simp_all
    then have "length ?r \<le> length (tl ?q)"
      using length_dropWhile_le [of "\<lambda>c. c = CHR ''/''" "tl ?q"] by simp
    then have lr: "length ?r < length ?q" using False by (cases ?q) simp_all
    show ?thesis
    proof (cases "?r = []")
      case True
      have pd: "parentDirectory p = ''/''" using False True by (rule parentDirectory_root)
      have "2 \<le> length p"
      proof (cases p)
        case Nil
        with slash show ?thesis by simp
      next
        case (Cons c cs)
        show ?thesis
        proof (cases cs)
          case Nil
          with Cons slash have "p = ''/''" by simp
          with pd ne show ?thesis by simp
        next
          case (Cons d ds)
          with \<open>p = c # cs\<close> show ?thesis by simp
        qed
      qed
      then show ?thesis using notdot by (simp add: pd pathMeasure_def)
    next
      case nonempty: False
      have "parentDirectory p = rev ?r" using False nonempty by (rule parentDirectory_rev)
      then show ?thesis using lr lq notdot by (simp add: pathMeasure_def)
    qed
  qed
qed

text \<open>
  With the parent function of slash-separated paths the walk returns from every
  directory, whatever the files are.
\<close>

lemma walk_returns_on_slash_paths:
  assumes "getDirectoryPath h = parentDirectory"
  shows "\<exists>cfg. searchParentDirectories h dir = Some cfg"
proof -
  have "m (getDirectoryPath h p) < m p"
    if "getDirectoryPath h p \<noteq> p" and "m = pathMeasure" for m p
    using that assms parentDirectory_shrinks [of p] by simp
  then have "searchParentDirectories h dir =
      Some (firstExisting h (map (\<lambda>a. joinPath h a ''tsco.json'')
        (parentDirectories h (pathMeasure dir) dir)))"
    using search_eq [of h pathMeasure dir "pathMeasure dir"] by simp
  then show ?thesis by blast
qed

lemma demo_fields:
  "fileExists demoHost p = (demoFiles p \<noteq> None)"
  "readFile demoHost p = (case demoFiles p of Some t \<Rightarrow> Inr t | None \<Rightarrow> Inl IOError)"
  "getDirectoryPath demoHost = parentDirectory"
  "getFullPath demoHost p = p"
  "getRelativePath demoHost = relativePath"
  "joinPath demoHost = joinWithSlash"
  "loadConfiguration demoHost p = demoConfiguration"
  "getDefaultConfiguration demoHost = \<lparr>cfgFiles = \<lparr>includeGlobs = [], excludeGlobs = []\<rparr>\<rparr>"
  "organizeSourceCode demoHost = demoOrganizer"
  "workspaceFolders demoHost = Some [''/w'']"
  "openTextDocument demoHost p =
     (case demoFiles p of Some t \<Rightarrow> Inr (demoDocument p t) | None \<Rightarrow> Inl IOError)"
  by (simp_all add: demoHost_def)

lemma demo_matches: "matches demoHost = globMatch"
  by (rule ext, rule ext) (simp add: matches_def demoHost_def)

lemma demo_shrinks:
  "getDirectoryPath demoHost p \<noteq> p \<Longrightarrow>
     pathMeasure (getDirectoryPath demoHost p) < pathMeasure p"
  using parentDirectory_shrinks [of p] by (simp add: demo_fields)

lemma demo_root: "getWorkspaceRootDirectoryPath demoHost = ''/w''"
  by (simp add: getWorkspaceRootDirectoryPath_def demo_fields)

lemma demo_parent_values:
  "parentDirectory ''/w/src'' = ''/w''"
  "parentDirectory ''/w'' = ''/''"
  "parentDirectory ''/'' = ''/''"
  by (simp_all add: parentDirectory_def)

lemma demo_parents: "parentDirectories demoHost (pathMeasure ''/w'') ''/w'' = [''/'']"
  by (simp add: pathMeasure_def demo_fields demo_parent_values)

lemma demo_candidates:
  "firstExisting demoHost (configurationCandidates demoHost (pathMeasure ''/w'') None)
     = demoConfiguration"
  by (simp add: configurationCandidates_def firstExisting_def demo_root demo_parents
      demo_fields joinWithSlash_def demoFiles_def)

lemma demo_configuration: "getConfiguration demoHost None = Some demoConfiguration"
  using getConfiguration_eq [of demoHost pathMeasure None, OF demo_shrinks]
  by (simp add: demo_root demo_candidates)

lemma demo_relative:
  "relativeToWorkspace demoHost ''/w/src/a.ts'' = ''src/a.ts''"
  "relativeToWorkspace demoHost ''/w/src/b.ts'' = ''src/b.ts''"
  "relativeToWorkspace demoHost ''/w/src/c.ts'' = ''src/c.ts''"
  "relativeToWorkspace demoHost ''/w/src/b.d.ts'' = ''src/b.d.ts''"
  by (simp_all add: relativeToWorkspace_def demo_root demo_fields relativePath_def)

lemma demo_filter:
  "passesFilter demoHost ''src/a.ts'' demoConfiguration"
  "passesFilter demoHost ''src/b.ts'' demoConfiguration"
  "passesFilter demoHost ''src/c.ts'' demoConfiguration"
  "\<not> passesFilter demoHost ''src/b.d.ts'' demoConfiguration"
  by (simp_all add: passesFilter_def patternMatches_fun demoConfiguration_def demo_matches
      stripDots_def replaceAll.simps)

lemma demo_no_editor: "getOpenedEditor demoHost demoState p = None"
  by (simp add: getOpenedEditor_def demoState_def)

lemma demo_source:
  "currentSourceCode demoHost demoState ''/w/src/a.ts'' = Inr ''a();b();''"
  "currentSourceCode demoHost demoState ''/w/src/b.ts'' = Inr ''b();a();''"
  "currentSourceCode demoHost demoState ''/w/src/c.ts'' = Inr ''class {''"
  by (simp_all add: currentSourceCode_def demo_no_editor demo_fields demoFiles_def)

lemma demo_editor:
  "editorToEdit demoHost (recordCall demoState ''/w/src/b.ts'' ''b();a();'') ''/w/src/b.ts'' =
     (Inr (demoDocument ''/w/src/b.ts'' ''b();a();''),
      \<lparr>visibleTextEditors = [demoDocument ''/w/src/b.ts'' ''b();a();''], appliedEdits = [],
       organizerCalls = [(''/w/src/b.ts'', ''b();a();'')]\<rparr>)"
  by (simp add: editorToEdit_def openEditor_def getOpenedEditor_recordCall demo_no_editor
      demo_fields demoFiles_def)
     (simp add: recordCall_def demoState_def)

lemma demo_guards:
  "saveGuards demoHost demoSettings \<lparr>document = demoDocument p t\<rparr> = globMatch ''**/*.ts'' p"
  by (simp add: saveGuards_def demoSettings_def demoDocument_def demo_matches demo_fields)

lemma demo_settings: "configurationFilePath demoSettings = None"
  by (simp add: demoSettings_def)

lemma demo_document:
  "fsPath (demoDocument p t) = p"
  "getText (demoDocument p t) = t"
  "languageId (demoDocument p t) = ''typescript''"
  by (simp_all add: demoDocument_def)

lemma demo_whole:
  "wholeDocumentRange (demoDocument p ''b();a();'') =
     \<lparr>rangeStart = \<lparr>line = 0, character = 0\<rparr>, rangeEnd = \<lparr>line = 0, character = 8\<rparr>\<rparr>"
  by (simp add: wholeDocumentRange_def demoDocument_def lineCount_def LF_def CR_def)

section \<open>The claims\<close>

text \<open>
  C2: an edit is applied exactly when the organized text differs from the text that was
  read. For a file that passes the filter, whose text \<open>src\<close> was read and for which the
  organizer returned \<open>out\<close>: when \<open>out = src\<close>, \<^verbatim>\<open>organize\<close> returns false and leaves the
  applied edits and the editors as they were, and \<^verbatim>\<open>onSave\<close> resolves to the empty edit
  list; when \<open>out \<noteq> src\<close> (and the editor of the file is there or can be opened),
  \<^verbatim>\<open>organize\<close> returns true and applies one edit, which replaces the range from offset
  0 to the length of the document, so that the new text of the document is \<open>out\<close>.
\<close>

theorem edit_iff_changed:
  "(shouldOrganize (shouldOrganizeFile h (relativeToWorkspace h p) cfg) \<and>
    currentSourceCode h st p = Inr src \<and> organizeSourceCode h p src cfg = Inr out \<longrightarrow>
      (out = src \<longrightarrow>
         fst (organize h st p cfg) = Inr False \<and>
         appliedEdits (snd (organize h st p cfg)) = appliedEdits st \<and>
         visibleTextEditors (snd (organize h st p cfg)) = visibleTextEditors st) \<and>
      (out \<noteq> src \<and> editorToEdit h (recordCall st p src) p = (Inr ed, st') \<longrightarrow>
         fst (organize h st p cfg) = Inr True \<and>
         appliedEdits (snd (organize h st p cfg)) =
           appliedEdits st @ [(fsPath ed, wholeDocumentRange ed, out)] \<and>
         offsetAt (getText ed) (rangeStart (wholeDocumentRange ed)) = 0 \<and>
         offsetAt (getText ed) (rangeEnd (wholeDocumentRange ed)) = length (getText ed) \<and>
         replaceRange (getText ed) (wholeDocumentRange ed) out = out))
   \<and> (saveGuards h stg event \<and> getConfiguration h (configurationFilePath stg) = Some cfg' \<and>
       organizeSourceCode h (getFullPath h (fsPath (document event))) (getText (document event)) cfg'
         = Inr (getText (document event)) \<longrightarrow>
       fst (onSave h stg st event) = WaitUntil (Some (Inr [])))"
proof -
  have a: "fst (organize h st p cfg) = Inr False \<and>
         appliedEdits (snd (organize h st p cfg)) = appliedEdits st \<and>
         visibleTextEditors (snd (organize h st p cfg)) = visibleTextEditors st"
    if "passesFilter h (relativeToWorkspace h p) cfg" "currentSourceCode h st p = Inr src"
       "organizeSourceCode h p src cfg = Inr src"
    using that by (simp add: organize_passed recordCall_fields)
  have b: "fst (organize h st p cfg) = Inr True \<and>
         appliedEdits (snd (organize h st p cfg)) =
           appliedEdits st @ [(fsPath ed, wholeDocumentRange ed, out)]"
    if "passesFilter h (relativeToWorkspace h p) cfg" "currentSourceCode h st p = Inr src"
       "organizeSourceCode h p src cfg = Inr out" "out \<noteq> src"
       "editorToEdit h (recordCall st p src) p = (Inr ed, st')"
  proof -
    have "appliedEdits st' = appliedEdits st"
      using editorToEdit_edits [of h "recordCall st p src" p] that(5)
      by (simp add: recordCall_fields)
    then show ?thesis using that by (simp add: organize_passed applyEdit_edits)
  qed
  have c: "fst (onSave h stg st event) = WaitUntil (Some (Inr []))"
    if "saveGuards h stg event" "getConfiguration h (configurationFilePath stg) = Some cfg'"
       "organizeSourceCode h (getFullPath h (fsPath (document event))) (getText (document event)) cfg'
         = Inr (getText (document event))"
    using that by (simp add: onSave_registered)
  show ?thesis
    using a b c by (auto simp: shouldOrganize_iff whole_offsets replaceRange_whole)
qed

theorem edit_iff_changed_witness:
  "fst (organize demoHost demoState ''/w/src/a.ts'' demoConfiguration) = Inr False
   \<and> appliedEdits (snd (organize demoHost demoState ''/w/src/a.ts'' demoConfiguration)) = []
   \<and> fst (organize demoHost demoState ''/w/src/b.ts'' demoConfiguration) = Inr True
   \<and> appliedEdits (snd (organize demoHost demoState ''/w/src/b.ts'' demoConfiguration)) =
        [(''/w/src/b.ts'',
          \<lparr>rangeStart = \<lparr>line = 0, character = 0\<rparr>, rangeEnd = \<lparr>line = 0, character = 8\<rparr>\<rparr>,
          ''a();b();'')]
   \<and> fst (onSave demoHost demoSettings demoState
        \<lparr>document = demoDocument ''/w/src/a.ts'' ''a();b();''\<rparr>) = WaitUntil (Some (Inr []))"
proof -
  have unchanged: "demoOrganizer ''/w/src/a.ts'' ''a();b();'' demoConfiguration = Inr ''a();b();''"
    and changed: "demoOrganizer ''/w/src/b.ts'' ''b();a();'' demoConfiguration = Inr ''a();b();''"
    by (simp_all add: demoOrganizer_def)
  have guards: "saveGuards demoHost demoSettings
      \<lparr>document = demoDocument ''/w/src/a.ts'' ''a();b();''\<rparr>"
    by (simp add: demo_guards)
  have edits: "appliedEdits demoState = []" by (simp add: demoState_def)
  show ?thesis
    using edit_iff_changed [where h = demoHost and p = "''/w/src/a.ts''"
            and cfg = demoConfiguration and st = demoState and src = "''a();b();''"
            and out = "''a();b();''" and stg = demoSettings and cfg' = demoConfiguration
            and event = "\<lparr>document = demoDocument ''/w/src/a.ts'' ''a();b();''\<rparr>"]
          edit_iff_changed [where h = demoHost and p = "''/w/src/b.ts''"
            and cfg = demoConfiguration and st = demoState and src = "''b();a();''"
            and out = "''a();b();''" and ed = "demoDocument ''/w/src/b.ts'' ''b();a();''"
            and st' = "\<lparr>visibleTextEditors = [demoDocument ''/w/src/b.ts'' ''b();a();''],
                   appliedEdits = [], organizerCalls = [(''/w/src/b.ts'', ''b();a();'')]\<rparr>"]
    by (simp add: shouldOrganize_iff demo_relative demo_filter demo_source demo_fields
        unchanged changed demo_editor guards demo_settings demo_configuration demo_document
        demo_whole edits)
qed

text \<open>
  C3: when the organizer fails, nothing is edited. For a file that passes the filter and
  whose text was read, a failure \<open>err\<close> of the organizer makes \<^verbatim>\<open>organize\<close> fail with
  \<open>err\<close> and leave the applied edits and the editors as they were; an edit is applied by
  \<^verbatim>\<open>organize\<close> only when the organizer has returned a text, one that differs from the
  text read; and the promise \<^verbatim>\<open>onSave\<close> registers is rejected with the organizer's
  error and carries no edit.
\<close>

theorem failure_applies_no_edit:
  "(shouldOrganize (shouldOrganizeFile h (relativeToWorkspace h p) cfg) \<and>
    currentSourceCode h st p = Inr src \<and> organizeSourceCode h p src cfg = Inl err \<longrightarrow>
      fst (organize h st p cfg) = Inl err \<and>
      appliedEdits (snd (organize h st p cfg)) = appliedEdits st \<and>
      visibleTextEditors (snd (organize h st p cfg)) = visibleTextEditors st)
   \<and> (appliedEdits (snd (organize h st p cfg)) \<noteq> appliedEdits st \<longrightarrow>
        (\<exists>src out. currentSourceCode h st p = Inr src \<and>
           organizeSourceCode h p src cfg = Inr out \<and> out \<noteq> src))
   \<and> (saveGuards h stg event \<and> getConfiguration h (configurationFilePath stg) = Some cfg' \<and>
       shouldOrganize (shouldOrganizeFile h
          (relativeToWorkspace h (getFullPath h (fsPath (document event)))) cfg') \<and>
       organizeSourceCode h (getFullPath h (fsPath (document event))) (getText (document event)) cfg'
         = Inl err' \<longrightarrow>
       fst (onSave h stg st event) = WaitUntil (Some (Inl err')))"
proof -
  have a: "fst (organize h st p cfg) = Inl err \<and>
      appliedEdits (snd (organize h st p cfg)) = appliedEdits st \<and>
      visibleTextEditors (snd (organize h st p cfg)) = visibleTextEditors st"
    if "passesFilter h (relativeToWorkspace h p) cfg" "currentSourceCode h st p = Inr src"
       "organizeSourceCode h p src cfg = Inl err"
    using that by (simp add: organize_passed recordCall_fields)
  have c: "fst (onSave h stg st event) = WaitUntil (Some (Inl err'))"
    if "saveGuards h stg event" "getConfiguration h (configurationFilePath stg) = Some cfg'"
       "passesFilter h (relativeToWorkspace h (getFullPath h (fsPath (document event)))) cfg'"
       "organizeSourceCode h (getFullPath h (fsPath (document event))) (getText (document event)) cfg'
         = Inl err'"
    using that by (simp add: onSave_registered)
  show ?thesis
    using a c organize_edits_cases [of h st p cfg] by (simp add: shouldOrganize_iff)
qed

theorem failure_applies_no_edit_witness:
  "fst (organize demoHost demoState ''/w/src/c.ts'' demoConfiguration) = Inl ParseError
   \<and> appliedEdits (snd (organize demoHost demoState ''/w/src/c.ts'' demoConfiguration)) = []
   \<and> visibleTextEditors (snd (organize demoHost demoState ''/w/src/c.ts'' demoConfiguration)) = []
   \<and> fst (onSave demoHost demoSettings demoState
        \<lparr>document = demoDocument ''/w/src/c.ts'' ''class {''\<rparr>) = WaitUntil (Some (Inl ParseError))"
proof -
  have fails: "demoOrganizer ''/w/src/c.ts'' ''class {'' demoConfiguration = Inl ParseError"
    by (simp add: demoOrganizer_def)
  have guards: "saveGuards demoHost demoSettings
      \<lparr>document = demoDocument ''/w/src/c.ts'' ''class {''\<rparr>"
    by (simp add: demo_guards)
  have fields: "appliedEdits demoState = []" "visibleTextEditors demoState = []"
    by (simp_all add: demoState_def)
  show ?thesis
    using failure_applies_no_edit [where h = demoHost and p = "''/w/src/c.ts''"
            and cfg = demoConfiguration and st = demoState and src = "''class {''"
            and err = ParseError and err' = ParseError
            and stg = demoSettings and cfg' = demoConfiguration
            and event = "\<lparr>document = demoDocument ''/w/src/c.ts'' ''class {''\<rparr>"]
    by (simp add: shouldOrganize_iff demo_relative demo_filter demo_source demo_fields
        fails guards demo_settings demo_configuration demo_document fields)
qed



text \<open>
  C5: the configuration is taken from the first file that exists among, in this order,
  the configured path as it is, the configured path under the workspace root,
  \<^verbatim>\<open>tsco.json\<close> in the workspace root and \<^verbatim>\<open>tsco.json\<close> in each directory above it, nearest
  first; when none exists it is the default configuration. \<^verbatim>\<open>getConfiguration\<close> returns
  a configuration in every case, provided each step to a parent directory that is not
  the directory itself makes some measure of the path smaller.
\<close>

theorem getConfiguration_precedence:
  assumes "\<And>p. getDirectoryPath h p \<noteq> p \<Longrightarrow> m (getDirectoryPath h p) < m p"
  shows "getConfiguration h configured =
     Some (case find (fileExists h)
                  ((case configured of
                      Some p \<Rightarrow>
                        if p \<noteq> [] then [p, joinPath h (getWorkspaceRootDirectoryPath h) p] else []
                    | None \<Rightarrow> [])
                   @ [joinPath h (getWorkspaceRootDirectoryPath h) ''tsco.json'']
                   @ map (\<lambda>d. joinPath h d ''tsco.json'')
                       (parentDirectories h (m (getWorkspaceRootDirectoryPath h))
                          (getWorkspaceRootDirectoryPath h))) of
             Some f \<Rightarrow> loadConfiguration h f
           | None \<Rightarrow> getDefaultConfiguration h)"
  using getConfiguration_eq [of h m configured, OF assms]
  by (simp add: firstExisting_def configurationCandidates_def)

theorem getConfiguration_precedence_witness:
  "getConfiguration demoHost None = Some demoConfiguration
   \<and> getConfiguration demoHost (Some ''/w/src/a.ts'') = Some demoConfiguration"
  using getConfiguration_precedence [of demoHost pathMeasure None, OF demo_shrinks]
        getConfiguration_precedence [of demoHost pathMeasure "Some ''/w/src/a.ts''",
          OF demo_shrinks]
  by (simp add: demo_root demo_parents demo_fields joinWithSlash_def demoFiles_def)

text \<open>
  C6: when the guards of \<^verbatim>\<open>onSave\<close> hold and the configuration is resolved, the promise
  handed to \<^verbatim>\<open>event.waitUntil\<close> resolves to the empty list for a file the filter rejects
  and for a text the organizer returns unchanged, and to a single edit when the
  organized text differs: the replacement of the range from position (0, 0) to the end
  of the last line by the organized text. That range runs from offset 0 to the length of
  the document, so the edit replaces the whole text.
\<close>

theorem onSave_whole_document_edit:
  "saveGuards h stg event \<and> getConfiguration h (configurationFilePath stg) = Some cfg \<longrightarrow>
     (\<not> shouldOrganize (shouldOrganizeFile h
           (relativeToWorkspace h (getFullPath h (fsPath (document event)))) cfg) \<longrightarrow>
        fst (onSave h stg st event) = WaitUntil (Some (Inr [])))
     \<and> (shouldOrganize (shouldOrganizeFile h
           (relativeToWorkspace h (getFullPath h (fsPath (document event)))) cfg) \<and>
         organizeSourceCode h (getFullPath h (fsPath (document event)))
           (getText (document event)) cfg = Inr out \<longrightarrow>
           fst (onSave h stg st event) =
             WaitUntil (Some (Inr (if out \<noteq> getText (document event)
               then [Replace (wholeDocumentRange (document event)) out]
               else []))))
     \<and> rangeStart (wholeDocumentRange (document event)) = \<lparr>line = 0, character = 0\<rparr>
     \<and> rangeEnd (wholeDocumentRange (document event)) =
          \<lparr>line = lineCount (document event) - 1,
           character = length (fst (last (splitLines (getText (document event)))))\<rparr>
     \<and> offsetAt (getText (document event)) (rangeStart (wholeDocumentRange (document event))) = 0
     \<and> offsetAt (getText (document event)) (rangeEnd (wholeDocumentRange (document event)))
          = length (getText (document event))
     \<and> replaceRange (getText (document event)) (wholeDocumentRange (document event)) out = out"
proof -
  have "rangeStart (wholeDocumentRange (document event)) = \<lparr>line = 0, character = 0\<rparr>"
    and "rangeEnd (wholeDocumentRange (document event)) =
          \<lparr>line = lineCount (document event) - 1,
           character = length (fst (last (splitLines (getText (document event)))))\<rparr>"
    by (simp_all add: wholeDocumentRange_def)
  then show ?thesis
    using whole_offsets [of "document event"] replaceRange_whole [of "document event" out]
    by (auto simp: onSave_registered shouldOrganize_iff)
qed

theorem onSave_whole_document_edit_witness:
  "fst (onSave demoHost demoSettings demoState
        \<lparr>document = demoDocument ''/w/src/b.ts'' ''b();a();''\<rparr>) =
     WaitUntil (Some (Inr [Replace \<lparr>rangeStart = \<lparr>line = 0, character = 0\<rparr>,
                                   rangeEnd = \<lparr>line = 0, character = 8\<rparr>\<rparr> ''a();b();'']))
   \<and> fst (onSave demoHost demoSettings demoState
        \<lparr>document = demoDocument ''/w/src/b.d.ts'' ''b();a();''\<rparr>) = WaitUntil (Some (Inr []))"
proof -
  have changed: "demoOrganizer ''/w/src/b.ts'' ''b();a();'' demoConfiguration = Inr ''a();b();''"
    by (simp add: demoOrganizer_def)
  have guards:
    "saveGuards demoHost demoSettings \<lparr>document = demoDocument ''/w/src/b.ts'' ''b();a();''\<rparr>"
    "saveGuards demoHost demoSettings \<lparr>document = demoDocument ''/w/src/b.d.ts'' ''b();a();''\<rparr>"
    by (simp_all add: demo_guards)
  have first: "fst (onSave demoHost demoSettings demoState
        \<lparr>document = demoDocument ''/w/src/b.ts'' ''b();a();''\<rparr>) =
     WaitUntil (Some (Inr [Replace \<lparr>rangeStart = \<lparr>line = 0, character = 0\<rparr>,
                                   rangeEnd = \<lparr>line = 0, character = 8\<rparr>\<rparr> ''a();b();'']))"
    using onSave_whole_document_edit [where h = demoHost and stg = demoSettings
            and cfg = demoConfiguration and st = demoState and out = "''a();b();''"
            and event = "\<lparr>document = demoDocument ''/w/src/b.ts'' ''b();a();''\<rparr>",
            THEN mp, THEN conjunct2, THEN conjunct1, THEN mp]
    by (simp add: shouldOrganize_iff demo_relative demo_filter demo_fields changed guards
        demo_settings demo_configuration demo_document demo_whole)
  have second: "fst (onSave demoHost demoSettings demoState
        \<lparr>document = demoDocument ''/w/src/b.d.ts'' ''b();a();''\<rparr>) = WaitUntil (Some (Inr []))"
    using onSave_whole_document_edit [where h = demoHost and stg = demoSettings
            and cfg = demoConfiguration and st = demoState
            and event = "\<lparr>document = demoDocument ''/w/src/b.d.ts'' ''b();a();''\<rparr>",
            THEN mp, THEN conjunct1, THEN mp]
    by (simp add: shouldOrganize_iff demo_relative demo_filter demo_fields guards
        demo_settings demo_configuration demo_document)
  from first second show ?thesis by (rule conjI)
qed

text \<open>
  C7: the walk through the parent directories returns for every starting directory,
  provided each step to a parent that is not the directory itself makes some measure
  \<open>m\<close> of the path smaller (as its length is by a parent path); the walk then passes
  through at most \<open>m dir\<close> directories.
\<close>

theorem parent_walk_terminates:
  assumes "\<And>p. getDirectoryPath h p \<noteq> p \<Longrightarrow> m (getDirectoryPath h p) < m p"
  shows "(\<exists>cfg. searchParentDirectories h dir = Some cfg)
         \<and> length (parentDirectories h n dir) \<le> m dir"
  using search_eq [of h m dir "m dir", OF assms] parentDirectories_length [of h m n dir, OF assms]
  by simp

theorem parent_walk_terminates_witness:
  "(\<exists>cfg. searchParentDirectories demoHost ''/w/src'' = Some cfg)
   \<and> length (parentDirectories demoHost 5 ''/w/src'') \<le> pathMeasure ''/w/src''"
  using parent_walk_terminates [of demoHost pathMeasure "''/w/src''" 5, OF demo_shrinks]
  by simp

text \<open>
  C8: \<^verbatim>\<open>onSave\<close> hands \<^verbatim>\<open>event.waitUntil\<close> a promise exactly when the three guards hold:
  \<^verbatim>\<open>organizeOnSave\<close> is set, the language of the document is \<^verbatim>\<open>typescript\<close>, and its full
  path matches \<^verbatim>\<open>**/*.ts\<close>. When one of them fails nothing is registered and nothing
  changes.
\<close>

theorem onSave_guards:
  "(fst (onSave h stg st event) \<noteq> NotRegistered) =
     (organizeOnSave stg \<and> languageId (document event) = ''typescript'' \<and>
      matches h ''**/*.ts'' (getFullPath h (fsPath (document event))))
   \<and> (\<not> (organizeOnSave stg \<and> languageId (document event) = ''typescript'' \<and>
           matches h ''**/*.ts'' (getFullPath h (fsPath (document event)))) \<longrightarrow>
        onSave h stg st event = (NotRegistered, st))"
  by (auto simp: onSave_def Let_def split: option.splits sum.splits)

theorem onSave_guards_witness:
  "onSave demoHost demoSettings demoState \<lparr>document = demoDocument ''/w/src/b.js'' ''b();a();''\<rparr>
     = (NotRegistered, demoState)
   \<and> onSave demoHost (demoSettings\<lparr>organizeOnSave := False\<rparr>) demoState
        \<lparr>document = demoDocument ''/w/src/b.ts'' ''b();a();''\<rparr> = (NotRegistered, demoState)
   \<and> onSave demoHost demoSettings demoState
        \<lparr>document = (demoDocument ''/w/src/b.ts'' ''b();a();'')\<lparr>languageId := ''javascript''\<rparr>\<rparr>
       = (NotRegistered, demoState)
   \<and> fst (onSave demoHost demoSettings demoState
        \<lparr>document = demoDocument ''/w/src/b.ts'' ''b();a();''\<rparr>) \<noteq> NotRegistered"
  using onSave_guards [of demoHost demoSettings demoState
          "\<lparr>document = demoDocument ''/w/src/b.js'' ''b();a();''\<rparr>"]
        onSave_guards [of demoHost "demoSettings\<lparr>organizeOnSave := False\<rparr>" demoState
          "\<lparr>document = demoDocument ''/w/src/b.ts'' ''b();a();''\<rparr>"]
        onSave_guards [of demoHost demoSettings demoState
          "\<lparr>document = (demoDocument ''/w/src/b.ts'' ''b();a();'')\<lparr>languageId := ''javascript''\<rparr>\<rparr>"]
        onSave_guards [of demoHost demoSettings demoState
          "\<lparr>document = demoDocument ''/w/src/b.ts'' ''b();a();''\<rparr>"]
  by (simp add: demo_matches demoSettings_def demo_document demo_fields)

text \<open>
  C9: \<^verbatim>\<open>onOrganize\<close> returns false and changes nothing (the organizer is not called) when
  its path is \<^verbatim>\<open>null\<close>, \<^verbatim>\<open>undefined\<close> or empty, when the full path does not match
  \<^verbatim>\<open>**/*.ts\<close>, and when no file exists at it. Only for a path that is not empty, matches
  and exists is \<^verbatim>\<open>organize\<close> called, on the full path and the resolved configuration.
\<close>

theorem onOrganize_guards:
  "onOrganize h stg st None = Some (Inr False, st)
   \<and> onOrganize h stg st (Some []) = Some (Inr False, st)
   \<and> (\<not> matches h ''**/*.ts'' (getFullPath h p) \<or> \<not> fileExists h (getFullPath h p) \<longrightarrow>
        onOrganize h stg st (Some p) = Some (Inr False, st))
   \<and> (p \<noteq> [] \<and> matches h ''**/*.ts'' (getFullPath h p) \<and> fileExists h (getFullPath h p) \<longrightarrow>
        onOrganize h stg st (Some p) =
          map_option (organize h st (getFullPath h p))
            (getConfiguration h (configurationFilePath stg)))"
  by (auto simp: onOrganize_def Let_def split: option.splits)

theorem onOrganize_guards_witness:
  "onOrganize demoHost demoSettings demoState (Some ''/w/src/b.js'') = Some (Inr False, demoState)
   \<and> onOrganize demoHost demoSettings demoState (Some ''/w/src/z.ts'') = Some (Inr False, demoState)
   \<and> onOrganize demoHost demoSettings demoState (Some ''/w/src/b.ts'') =
       Some (organize demoHost demoState ''/w/src/b.ts'' demoConfiguration)"
  using onOrganize_guards [of demoHost demoSettings demoState "''/w/src/b.js''"]
        onOrganize_guards [of demoHost demoSettings demoState "''/w/src/z.ts''"]
        onOrganize_guards [of demoHost demoSettings demoState "''/w/src/b.ts''"]
  by (simp add: demo_matches demo_settings demo_fields demoFiles_def demo_configuration)

text \<open>
  C10: every include and exclude pattern is tried on two forms of the relative path,
  the path as it is and the path after \<^verbatim>\<open>replaceAll("../", "")\<close> and
  \<^verbatim>\<open>replaceAll("./", "")\<close>, and matches when it matches one of them; and a path that an
  exclude pattern matches is not organized, whatever the include patterns say.
\<close>

theorem two_forms_exclusion_wins:
  "shouldOrganize (shouldOrganizeFile h rel cfg) =
     ((includeGlobs (cfgFiles cfg) = [] \<or>
       (\<exists>inc \<in> set (includeGlobs (cfgFiles cfg)).
          matches h inc rel \<or> matches h inc (replaceAll ''./'' [] (replaceAll ''../'' [] rel))))
      \<and> (\<forall>exc \<in> set (excludeGlobs (cfgFiles cfg)).
            \<not> matches h exc rel \<and>
            \<not> matches h exc (replaceAll ''./'' [] (replaceAll ''../'' [] rel))))
   \<and> ((\<exists>exc \<in> set (excludeGlobs (cfgFiles cfg)).
          matches h exc rel \<or> matches h exc (replaceAll ''./'' [] (replaceAll ''../'' [] rel)))
        \<longrightarrow> \<not> shouldOrganize (shouldOrganizeFile h rel cfg))"
  by (auto simp: shouldOrganize_iff passesFilter_def patternMatches_fun stripDots_def list_ex_iff)

theorem two_forms_exclusion_wins_witness:
  "shouldOrganize (shouldOrganizeFile demoHost ''../src/a.ts'' demoBoth)
   \<and> \<not> matches demoHost ''src/*'' ''../src/a.ts''
   \<and> matches demoHost ''src/*'' ''src/gen/a.ts''
   \<and> \<not> shouldOrganize (shouldOrganizeFile demoHost ''src/gen/a.ts'' demoBoth)"
  using two_forms_exclusion_wins [of demoHost "''../src/a.ts''" demoBoth]
        two_forms_exclusion_wins [of demoHost "''src/gen/a.ts''" demoBoth]
  by (simp add: demoBoth_def demo_matches replaceAll.simps)

end
